theory Spec2Isabelle
  imports Main
begin

section \<open>JavaScript values\<close>

text \<open>
  The values that flow through \<^verbatim>\<open>helpers/Prism.js\<close>: arguments, option fields, JSON
  request payloads and JSON response bodies. Numbers are the integers (a port, a priority,
  a status code) of magnitude below \<open>10^21\<close>, which JavaScript prints in plain decimal.
  An omitted argument is \<open>JUndefined\<close>.
\<close>

datatype jsval =
    JUndefined
  | JNull
  | JBool bool
  | JNum int
  | JStr string
  | JArr "jsval list"
  | JObj "(string \<times> jsval) list"

text \<open>The exceptions of the module: its own \<open>UserError\<close>, the engine's \<open>TypeError\<close>, and
  the failures that come from the transport or from the API helper.\<close>

datatype error =
    UserError string
  | TypeError string
  | NetworkError string
  | Error string

text \<open>JavaScript's ToBoolean, as used by \<^verbatim>\<open>if(x)\<close>, \<^verbatim>\<open>!x\<close> and \<^verbatim>\<open>x || y\<close>.\<close>

fun truthy :: "jsval \<Rightarrow> bool" where
  "truthy JUndefined = False"
| "truthy JNull = False"
| "truthy (JBool b) = b"
| "truthy (JNum n) = (n \<noteq> 0)"
| "truthy (JStr s) = (s \<noteq> [])"
| "truthy (JArr xs) = True"
| "truthy (JObj kvs) = True"

text \<open>\<^verbatim>\<open>a || b\<close>\<close>

definition or_js :: "jsval \<Rightarrow> jsval \<Rightarrow> jsval" where
  "or_js a b = (if truthy a then a else b)"

text \<open>Property read \<^verbatim>\<open>v.k\<close>: a TypeError on \<^verbatim>\<open>undefined\<close> and \<^verbatim>\<open>null\<close>,
  \<^verbatim>\<open>undefined\<close> for a property that is not there.\<close>

fun get_prop :: "jsval \<Rightarrow> string \<Rightarrow> error + jsval" where
  "get_prop JUndefined k = Inl (TypeError (''Cannot read property '' @ k @ '' of undefined''))"
| "get_prop JNull k = Inl (TypeError (''Cannot read property '' @ k @ '' of null''))"
| "get_prop (JObj kvs) k = Inr (case map_of kvs k of None \<Rightarrow> JUndefined | Some v \<Rightarrow> v)"
| "get_prop v k = Inr JUndefined"

text \<open>Decimal digits of a natural number.\<close>

fun digits :: "nat \<Rightarrow> string" where
  "digits n =
     (if n < 10 then [''0123456789'' ! n]
      else digits (n div 10) @ [''0123456789'' ! (n mod 10)])"

declare digits.simps [simp del]

fun join_comma :: "string list \<Rightarrow> string" where
  "join_comma [] = []"
| "join_comma [s] = s"
| "join_comma (s # t # ss) = s @ '','' @ join_comma (t # ss)"

text \<open>JavaScript's ToString, which the \<^verbatim>\<open>+\<close> of a string and a value applies to the
  value: an array is its elements joined by commas (\<^verbatim>\<open>null\<close> and \<^verbatim>\<open>undefined\<close> elements
  empty), a plain object is \<^verbatim>\<open>[object Object]\<close>.\<close>

fun toString :: "jsval \<Rightarrow> string" where
  "toString JUndefined = ''undefined''"
| "toString JNull = ''null''"
| "toString (JBool b) = (if b then ''true'' else ''false'')"
| "toString (JNum n) = (if n < 0 then CHR ''-'' # digits (nat (- n)) else digits (nat n))"
| "toString (JStr s) = s"
| "toString (JArr xs) =
     join_comma (map (\<lambda>x. if x = JUndefined \<or> x = JNull then [] else toString x) xs)"
| "toString (JObj kvs) = ''[object Object]''"


section \<open>Requests, replies and the API helper\<close>

text \<open>The options object handed to \<^verbatim>\<open>postAsync\<close>: \<^verbatim>\<open>{url: ..., json: ..., formData: ...}\<close>.\<close>

record request =
  req_url :: string
  req_json :: jsval
  req_formData :: "jsval option"

text \<open>What a POST resolves to, the pair \<^verbatim>\<open>[res, body]\<close> that \<^verbatim>\<open>.spread\<close> unpacks.\<close>

record reply =
  res :: jsval
  body :: jsval

text \<open>
  The request client that \<^verbatim>\<open>./api\<close> builds (\<^verbatim>\<open>that.api\<close>, and the session-bound
  \<^verbatim>\<open>client\<close>). The helper is a module of its own, so the four members that
  \<^verbatim>\<open>Prism.js\<close> uses are the fields of a record and every theorem holds for any values of
  them: \<open>url\<close> builds the address of an endpoint, \<open>postAsync\<close> is what the transport
  answers to a POST (\<open>Inl\<close> a rejection), \<open>validateResponse\<close> is the function that
  \<^verbatim>\<open>validateResponse()\<close> returns (\<open>Inl\<close> when it throws), and \<open>handleNetworkError\<close>
  maps a caught error to the error it throws in its place (the handler always re-throws,
  a normalized error). A fifth field, \<open>headers\<close>, holds the headers that the client puts
  on every request it sends; \<^verbatim>\<open>Prism.js\<close> never reads it, it is where a helper keeps the
  session token that \<^verbatim>\<open>api.setSession\<close> binds.
\<close>

record accessor =
  url :: "string \<Rightarrow> string"
  postAsync :: "request \<Rightarrow> error + reply"
  validateResponse :: "reply \<Rightarrow> error + reply"
  handleNetworkError :: "error \<Rightarrow> error"
  headers :: "(string \<times> jsval) list"

text \<open>The object \<^verbatim>\<open>opts.prism\<close>, which the factories of the helper receive.\<close>

record prism_opts =
  host :: jsval
  port :: jsval

text \<open>The functions of the module \<^verbatim>\<open>./api\<close> that \<^verbatim>\<open>Prism.js\<close> calls, as parameters.
  The request handed to \<^verbatim>\<open>api.setSession\<close> is \<open>None\<close> when it is the empty object
  \<^verbatim>\<open>{}\<close> that the constructor stores in \<^verbatim>\<open>this.api\<close>. That object has none of the
  members of a request client, and what the helper does with it is not fixed: the call may
  throw. \<open>api_setSession_empty\<close> is the error of that call when it throws (\<open>None\<close> when
  it returns); \<open>api_setSession\<close> is the client that the call returns.\<close>

record api_module =
  api_setupAccess :: "string \<Rightarrow> prism_opts \<Rightarrow> accessor"
  api_prism :: "prism_opts \<Rightarrow> accessor"
  api_setSession :: "jsval \<Rightarrow> accessor option \<Rightarrow> string \<Rightarrow> accessor"
  api_setSession_empty :: "jsval \<Rightarrow> string \<Rightarrow> error option"

text \<open>Whether the call \<^verbatim>\<open>api.setSession(session, request, tokenName)\<close> throws, and what:
  on a request client it returns, on the empty object it is up to the helper.\<close>

definition setSession_throws ::
  "api_module \<Rightarrow> jsval \<Rightarrow> accessor option \<Rightarrow> string \<Rightarrow> error option" where
  "setSession_throws api_mod session request tokenName =
     (case request of
        None \<Rightarrow> api_setSession_empty api_mod session tokenName
      | Some r \<Rightarrow> None)"


section \<open>Calls and promises\<close>

text \<open>A call either throws synchronously or returns.\<close>

datatype 'a call = Throws error | Returns 'a

text \<open>A promise, observed once it has settled: rejected (\<open>Inl\<close>) or fulfilled (\<open>Inr\<close>),
  together with the POST requests that were issued on the way, in order.\<close>

datatype 'a promise = Promise (settled: "error + 'a") (posts: "request list")

text \<open>\<^verbatim>\<open>P.try(function(){ return v })\<close>\<close>

definition P_try :: "'a \<Rightarrow> 'a promise" where
  "P_try v = Promise (Inr v) []"

text \<open>\<^verbatim>\<open>client.postAsync(req)\<close>: one request goes out.\<close>

definition post :: "accessor \<Rightarrow> request \<Rightarrow> reply promise" where
  "post client req = Promise (postAsync client req) [req]"

text \<open>\<^verbatim>\<open>p.then(f)\<close> where \<open>f\<close> returns a promise: skipped when \<open>p\<close> is rejected.\<close>

definition then_promise :: "'a promise \<Rightarrow> ('a \<Rightarrow> 'b promise) \<Rightarrow> 'b promise" where
  "then_promise p f =
     (case settled p of
        Inl e \<Rightarrow> Promise (Inl e) (posts p)
      | Inr v \<Rightarrow> Promise (settled (f v)) (posts p @ posts (f v)))"

text \<open>\<^verbatim>\<open>p.spread(f)\<close> where \<open>f\<close> returns a value or throws: skipped when \<open>p\<close> is
  rejected; a throw in \<open>f\<close> rejects the result.\<close>

definition spread :: "'a promise \<Rightarrow> ('a \<Rightarrow> error + 'b) \<Rightarrow> 'b promise" where
  "spread p f =
     (case settled p of
        Inl e \<Rightarrow> Promise (Inl e) (posts p)
      | Inr v \<Rightarrow> Promise (f v) (posts p))"

text \<open>\<^verbatim>\<open>p.catch(h)\<close>: bluebird's one-argument \<^verbatim>\<open>catch\<close> is \<^verbatim>\<open>then(undefined, h)\<close>, so a
  handler that is \<^verbatim>\<open>undefined\<close> (\<open>None\<close>) lets the rejection through unchanged; a
  handler that re-throws rejects with what it throws.\<close>

definition catch_promise :: "'a promise \<Rightarrow> (error \<Rightarrow> error) option \<Rightarrow> 'a promise" where
  "catch_promise p h =
     (case h of
        None \<Rightarrow> p
      | Some f \<Rightarrow>
          (case settled p of
             Inl e \<Rightarrow> Promise (Inl (f e)) (posts p)
           | Inr v \<Rightarrow> p))"


section \<open>The Prism object\<close>

record options =
  username :: jsval
  password :: jsval
  domain :: jsval
  prism :: prism_opts

record prism_object =
  opts :: options
  api :: "accessor option"
  authenticated :: bool
  connected :: bool
  session :: jsval

text \<open>What a method leaves behind: what the call returned (or threw) and the object
  afterwards, once the returned promise has settled.\<close>

record 'a result =
  returned :: "'a promise call"
  after :: prism_object

text \<open>The defaults of the constructor.\<close>

definition default_opts :: options where
  "default_opts =
     \<lparr>username = JStr '''', password = JStr '''', domain = JStr ''cdn.oose.io'',
      prism = \<lparr>host = JNull, port = JNum 5971\<rparr>\<rparr>"

text \<open>\<^verbatim>\<open>new Prism(opts)\<close>; \<open>load\<close> is what \<^verbatim>\<open>this.opts.$load(opts)\<close> does to the defaults
  (the identity when no option is given). \<^verbatim>\<open>this.api = {}\<close> is \<open>None\<close>.\<close>

definition Prism :: "(options \<Rightarrow> options) \<Rightarrow> prism_object" where
  "Prism load =
     \<lparr>opts = load default_opts, api = None, authenticated = False, connected = False,
      session = JObj []\<rparr>"

definition isConnected :: "prism_object \<Rightarrow> bool" where
  "isConnected that = connected that"

definition isAuthenticated :: "prism_object \<Rightarrow> bool" where
  "isAuthenticated that = authenticated that"

definition setSession :: "prism_object \<Rightarrow> jsval \<Rightarrow> prism_object" where
  "setSession that sessionToken =
     that\<lparr>session := JObj [(''token'', sessionToken)], authenticated := True\<rparr>"

text \<open>The assignments \<^verbatim>\<open>that.opts.prism.host = v\<close> and \<^verbatim>\<open>that.opts.prism.port = v\<close>.\<close>

definition set_prism_host :: "prism_object \<Rightarrow> jsval \<Rightarrow> prism_object" where
  "set_prism_host that v = that\<lparr>opts := (opts that)\<lparr>prism := (prism (opts that))\<lparr>host := v\<rparr>\<rparr>\<rparr>"

definition set_prism_port :: "prism_object \<Rightarrow> jsval \<Rightarrow> prism_object" where
  "set_prism_port that v = that\<lparr>opts := (opts that)\<lparr>prism := (prism (opts that))\<lparr>port := v\<rparr>\<rparr>\<rparr>"

definition connect :: "api_module \<Rightarrow> prism_object \<Rightarrow> jsval \<Rightarrow> jsval \<Rightarrow> jsval result" where
  "connect api_mod that host_arg port_arg =
     (if truthy host_arg then
        let that1 = set_prism_host that host_arg;
            that2 = (if truthy port_arg then set_prism_port that1 port_arg else that1);
            that3 = that2\<lparr>connected := True\<rparr>;
            that4 = that3\<lparr>api := Some (api_setupAccess api_mod ''prism'' (prism (opts that3)))\<rparr>
        in \<lparr>returned = Returns (P_try (or_js host_arg (host (prism (opts that4))))),
            after = that4\<rparr>
      else
        let that1 = (if \<not> truthy (host (prism (opts that)))
                     then set_prism_host that (domain (opts that)) else that);
            that2 = (if \<not> truthy (port (prism (opts that1)))
                     then set_prism_port that1 (or_js port_arg (JNum 5971)) else that1);
            that3 = that2\<lparr>connected := True\<rparr>;
            that4 = that3\<lparr>api := Some (api_prism api_mod (prism (opts that3)))\<rparr>
        in \<lparr>returned = Returns (P_try (or_js host_arg (host (prism (opts that4))))),
            after = that4\<rparr>)"

text \<open>\<^verbatim>\<open>prepare(request, session)\<close>; an omitted \<open>request\<close> is \<open>None\<close>. The client is built
  first, by a call of \<^verbatim>\<open>api.setSession\<close> that comes before the two checks and whose
  throw, if it throws, is the throw of \<^verbatim>\<open>prepare\<close>; then the two checks throw (they are
  outside \<^verbatim>\<open>P.try\<close>); the promise that is returned has issued no request.\<close>

definition prepare ::
  "api_module \<Rightarrow> prism_object \<Rightarrow> accessor option \<Rightarrow> jsval \<Rightarrow> accessor promise call" where
  "prepare api_mod that request_arg session_arg =
     (let request = (case request_arg of None \<Rightarrow> api that | Some r \<Rightarrow> Some r);
          session = (if \<not> truthy session_arg then session that else session_arg)
      in case setSession_throws api_mod session request ''X-OOSE-Token'' of
           Some e \<Rightarrow> Throws e
         | None \<Rightarrow>
             let client = api_setSession api_mod session request ''X-OOSE-Token''
             in if \<not> isConnected that then Throws (UserError ''Not connected'')
                else if \<not> isAuthenticated that then Throws (UserError ''Not authenticated'')
                else Returns (P_try client))"


section \<open>URL builders\<close>

definition urlPurchase :: "prism_object \<Rightarrow> jsval \<Rightarrow> jsval \<Rightarrow> error + string" where
  "urlPurchase that purchase name_arg =
     (let name = or_js name_arg (JStr ''video'') in
      case get_prop purchase ''token'' of
        Inl e \<Rightarrow> Inl e
      | Inr token \<Rightarrow>
          (case get_prop purchase ''ext'' of
             Inl e \<Rightarrow> Inl e
           | Inr ext \<Rightarrow>
               Inr (''//'' @ toString (domain (opts that)) @ ''/'' @
                    toString token @ ''/'' @ toString name @ ''.'' @ toString ext)))"

definition urlStatic :: "prism_object \<Rightarrow> jsval \<Rightarrow> jsval \<Rightarrow> jsval \<Rightarrow> string" where
  "urlStatic that hash ext_arg name_arg =
     (let name = or_js name_arg (JStr ''file'');
          ext = or_js ext_arg (JStr ''bin'')
      in ''//'' @ toString (domain (opts that)) @ ''/static/'' @
         toString hash @ ''/'' @ toString name @ ''.'' @ toString ext)"

definition jobContentUrl :: "prism_object \<Rightarrow> jsval \<Rightarrow> jsval \<Rightarrow> string" where
  "jobContentUrl that handle file =
     ''https://'' @ toString (host (prism (opts that))) @ '':'' @
     toString (port (prism (opts that))) @
     ''/job/content/download/'' @ toString handle @ ''/'' @ toString file"


section \<open>Operations that POST\<close>

text \<open>\<^verbatim>\<open>that.handleNetworkError\<close>: neither the constructor nor the prototype of
  \<^verbatim>\<open>Prism\<close> defines such a member (the handler lives on \<^verbatim>\<open>that.api\<close>), so the read
  gives \<^verbatim>\<open>undefined\<close>.\<close>

definition Prism_handleNetworkError :: "prism_object \<Rightarrow> (error \<Rightarrow> error) option" where
  "Prism_handleNetworkError that = None"

text \<open>The end of a chain: the last callback hands over its value and the object as it
  left it; a rejected chain leaves the object as it was.\<close>

definition finish :: "prism_object \<Rightarrow> ('a \<times> prism_object) promise \<Rightarrow> 'a result" where
  "finish that p =
     (case settled p of
        Inl e \<Rightarrow> \<lparr>returned = Returns (Promise (Inl e) (posts p)), after = that\<rparr>
      | Inr (v, that') \<Rightarrow> \<lparr>returned = Returns (Promise (Inr v) (posts p)), after = that'\<rparr>)"

text \<open>The built-ins of the platform that the operations call, as parameters:
  \<^verbatim>\<open>JSON.stringify\<close>, \<^verbatim>\<open>path.extname\<close>, \<^verbatim>\<open>path.resolve\<close> and
  \<^verbatim>\<open>fs.createReadStream\<close> (\<open>Inl\<close> when they throw).\<close>

record node =
  JSON_stringify :: "jsval \<Rightarrow> jsval"
  path_extname :: "jsval \<Rightarrow> error + string"
  path_resolve :: "jsval \<Rightarrow> error + jsval"
  fs_createReadStream :: "jsval \<Rightarrow> error + jsval"

definition login :: "prism_object \<Rightarrow> jsval \<Rightarrow> jsval \<Rightarrow> jsval result" where
  "login that username_arg password_arg =
     (case api that of
        None \<Rightarrow> \<lparr>returned = Throws (TypeError ''that.api.url is not a function''), after = that\<rparr>
      | Some a \<Rightarrow>
          let p1 = post a
                \<lparr>req_url = url a ''/user/login'',
                 req_json = JObj
                   [(''username'', or_js username_arg (username (opts that))),
                    (''password'', or_js password_arg (password (opts that)))],
                 req_formData = None\<rparr>;
              p2 = spread p1 (validateResponse a);
              p3 = spread p2 (\<lambda>r.
                     case get_prop (body r) ''session'' of
                       Inl e \<Rightarrow> Inl e
                     | Inr s \<Rightarrow>
                         if \<not> truthy s then Inl (UserError ''Login failed, no session'')
                         else Inr (s, that\<lparr>session := s, authenticated := True\<rparr>));
              p4 = catch_promise p3 (Some (handleNetworkError a))
          in finish that p4)"

definition logout :: "api_module \<Rightarrow> prism_object \<Rightarrow> jsval result" where
  "logout api_mod that =
     (case prepare api_mod that None JUndefined of
        Throws e \<Rightarrow> \<lparr>returned = Throws e, after = that\<rparr>
      | Returns p0 \<Rightarrow>
          (case api that of
             None \<Rightarrow>
               \<lparr>returned = Throws (TypeError ''that.api.validateResponse is not a function''),
                after = that\<rparr>
           | Some a \<Rightarrow>
               let p1 = then_promise p0 (\<lambda>client. post client
                      \<lparr>req_url = url client ''/user/logout'',
                       req_json = JBool True,
                       req_formData = None\<rparr>);
                   p2 = spread p1 (validateResponse a);
                   p3 = spread p2 (\<lambda>r. Inr (body r, that\<lparr>authenticated := False\<rparr>));
                   p4 = catch_promise p3 (Prism_handleNetworkError that)
               in finish that p4))"

definition contentDetail :: "api_module \<Rightarrow> prism_object \<Rightarrow> jsval \<Rightarrow> jsval result" where
  "contentDetail api_mod that hash =
     (case prepare api_mod that None JUndefined of
        Throws e \<Rightarrow> \<lparr>returned = Throws e, after = that\<rparr>
      | Returns p0 \<Rightarrow>
          (case api that of
             None \<Rightarrow>
               \<lparr>returned = Throws (TypeError ''that.api.validateResponse is not a function''),
                after = that\<rparr>
           | Some a \<Rightarrow>
               let p1 = then_promise p0 (\<lambda>client. post client
                      \<lparr>req_url = url client ''/content/detail'',
                       req_json = JObj [(''hash'', hash)],
                       req_formData = None\<rparr>);
                   p2 = spread p1 (validateResponse a);
                   p3 = spread p2 (\<lambda>r. Inr (body r, that));
                   p4 = catch_promise p3 (Prism_handleNetworkError that)
               in finish that p4))"

text \<open>The file stream is opened inside the \<^verbatim>\<open>then\<close> callback, where a throw rejects the
  chain before anything is posted.\<close>

definition contentUpload :: "node \<Rightarrow> api_module \<Rightarrow> prism_object \<Rightarrow> jsval \<Rightarrow> jsval result" where
  "contentUpload node_rt api_mod that filepath =
     (case prepare api_mod that None JUndefined of
        Throws e \<Rightarrow> \<lparr>returned = Throws e, after = that\<rparr>
      | Returns p0 \<Rightarrow>
          (case api that of
             None \<Rightarrow>
               \<lparr>returned = Throws (TypeError ''that.api.validateResponse is not a function''),
                after = that\<rparr>
           | Some a \<Rightarrow>
               let p1 = then_promise p0 (\<lambda>client.
                      case path_resolve node_rt filepath of
                        Inl e \<Rightarrow> Promise (Inl e) []
                      | Inr full \<Rightarrow>
                          (case fs_createReadStream node_rt full of
                             Inl e \<Rightarrow> Promise (Inl e) []
                           | Inr stream \<Rightarrow>
                               post client
                                 \<lparr>req_url = url client ''/content/upload'',
                                  req_json = JBool True,
                                  req_formData = Some (JObj [(''file'', stream)])\<rparr>));
                   p2 = spread p1 (validateResponse a);
                   p3 = spread p2 (\<lambda>r. Inr (body r, that));
                   p4 = catch_promise p3 (Prism_handleNetworkError that)
               in finish that p4))"

text \<open>The extension is worked out before \<^verbatim>\<open>prepare\<close> is called, outside any promise:
  \<^verbatim>\<open>path.extname(request.url).replace('.','')\<close>, the replacement removing the first dot.\<close>

definition default_extension :: "node \<Rightarrow> jsval \<Rightarrow> jsval \<Rightarrow> error + jsval" where
  "default_extension node_rt request fileExtension =
     (if \<not> truthy fileExtension then
        (case get_prop request ''url'' of
           Inl e \<Rightarrow> Inl e
         | Inr u \<Rightarrow>
             (case path_extname node_rt u of
                Inl e \<Rightarrow> Inl e
              | Inr ext \<Rightarrow> Inr (JStr (remove1 (CHR ''.'') ext))))
      else Inr fileExtension)"

definition contentRetrieve :: "node \<Rightarrow> api_module \<Rightarrow> prism_object \<Rightarrow> jsval \<Rightarrow> jsval \<Rightarrow> jsval result" where
  "contentRetrieve node_rt api_mod that request fileExtension_arg =
     (case default_extension node_rt request fileExtension_arg of
        Inl e \<Rightarrow> \<lparr>returned = Throws e, after = that\<rparr>
      | Inr fileExtension \<Rightarrow>
     (case prepare api_mod that None JUndefined of
        Throws e \<Rightarrow> \<lparr>returned = Throws e, after = that\<rparr>
      | Returns p0 \<Rightarrow>
          (case api that of
             None \<Rightarrow>
               \<lparr>returned = Throws (TypeError ''that.api.validateResponse is not a function''),
                after = that\<rparr>
           | Some a \<Rightarrow>
               let p1 = then_promise p0 (\<lambda>client. post client
                      \<lparr>req_url = url client ''/content/retrieve'',
                       req_json = JObj [(''request'', request), (''extension'', fileExtension)],
                       req_formData = None\<rparr>);
                   p2 = spread p1 (validateResponse a);
                   p3 = spread p2 (\<lambda>r. Inr (body r, that));
                   p4 = catch_promise p3 (Prism_handleNetworkError that)
               in finish that p4)))"

definition contentPurchase :: "api_module \<Rightarrow> prism_object \<Rightarrow> jsval \<Rightarrow> jsval \<Rightarrow> jsval \<Rightarrow> jsval \<Rightarrow> jsval result" where
  "contentPurchase api_mod that hash ext referrer life =
     (case prepare api_mod that None JUndefined of
        Throws e \<Rightarrow> \<lparr>returned = Throws e, after = that\<rparr>
      | Returns p0 \<Rightarrow>
          (case api that of
             None \<Rightarrow>
               \<lparr>returned = Throws (TypeError ''that.api.validateResponse is not a function''),
                after = that\<rparr>
           | Some a \<Rightarrow>
               let p1 = then_promise p0 (\<lambda>client. post client
                      \<lparr>req_url = url client ''/content/purchase'',
                       req_json = JObj [(''hash'', hash), (''ext'', ext), (''referrer'', referrer),
                                        (''life'', life)],
                       req_formData = None\<rparr>);
                   p2 = spread p1 (validateResponse a);
                   p3 = spread p2 (\<lambda>r. Inr (body r, that));
                   p4 = catch_promise p3 (Prism_handleNetworkError that)
               in finish that p4))"

definition contentPurchaseRemove :: "api_module \<Rightarrow> prism_object \<Rightarrow> jsval \<Rightarrow> jsval result" where
  "contentPurchaseRemove api_mod that token =
     (case prepare api_mod that None JUndefined of
        Throws e \<Rightarrow> \<lparr>returned = Throws e, after = that\<rparr>
      | Returns p0 \<Rightarrow>
          (case api that of
             None \<Rightarrow>
               \<lparr>returned = Throws (TypeError ''that.api.validateResponse is not a function''),
                after = that\<rparr>
           | Some a \<Rightarrow>
               let p1 = then_promise p0 (\<lambda>client. post client
                      \<lparr>req_url = url client ''/content/purchase/remove'',
                       req_json = JObj [(''token'', token)],
                       req_formData = None\<rparr>);
                   p2 = spread p1 (validateResponse a);
                   p3 = spread p2 (\<lambda>r. Inr (body r, that));
                   p4 = catch_promise p3 (Prism_handleNetworkError that)
               in finish that p4))"

definition jobCreate :: "node \<Rightarrow> api_module \<Rightarrow> prism_object \<Rightarrow> jsval \<Rightarrow> jsval \<Rightarrow> jsval \<Rightarrow> jsval result" where
  "jobCreate node_rt api_mod that description priority category =
     (case prepare api_mod that None JUndefined of
        Throws e \<Rightarrow> \<lparr>returned = Throws e, after = that\<rparr>
      | Returns p0 \<Rightarrow>
          (case api that of
             None \<Rightarrow>
               \<lparr>returned = Throws (TypeError ''that.api.validateResponse is not a function''),
                after = that\<rparr>
           | Some a \<Rightarrow>
               let p1 = then_promise p0 (\<lambda>client. post client
                      \<lparr>req_url = url client ''/job/create'',
                       req_json = JObj
                         [(''description'', JSON_stringify node_rt description),
                          (''priority'', or_js priority JNull),
                          (''category'', or_js category (JStr ''resource''))],
                       req_formData = None\<rparr>);
                   p2 = spread p1 (validateResponse a);
                   p3 = spread p2 (\<lambda>r. Inr (body r, that));
                   p4 = catch_promise p3 (Prism_handleNetworkError that)
               in finish that p4))"

text \<open>\<^verbatim>\<open>jobDetail\<close> has no \<^verbatim>\<open>.spread(that.api.validateResponse())\<close> step: the body
  is taken from the reply as it arrives, and \<^verbatim>\<open>that.api\<close> is not read.\<close>

definition jobDetail :: "api_module \<Rightarrow> prism_object \<Rightarrow> jsval \<Rightarrow> jsval result" where
  "jobDetail api_mod that handle =
     (case prepare api_mod that None JUndefined of
        Throws e \<Rightarrow> \<lparr>returned = Throws e, after = that\<rparr>
      | Returns p0 \<Rightarrow>
          let p1 = then_promise p0 (\<lambda>client. post client
                      \<lparr>req_url = url client ''/job/detail'',
                       req_json = JObj [(''handle'', handle)],
                       req_formData = None\<rparr>);
              p3 = spread p1 (\<lambda>r. Inr (body r, that));
              p4 = catch_promise p3 (Prism_handleNetworkError that)
          in finish that p4)"

definition jobUpdate :: "api_module \<Rightarrow> prism_object \<Rightarrow> jsval \<Rightarrow> jsval \<Rightarrow> jsval result" where
  "jobUpdate api_mod that handle changes =
     (case prepare api_mod that None JUndefined of
        Throws e \<Rightarrow> \<lparr>returned = Throws e, after = that\<rparr>
      | Returns p0 \<Rightarrow>
          (case api that of
             None \<Rightarrow>
               \<lparr>returned = Throws (TypeError ''that.api.validateResponse is not a function''),
                after = that\<rparr>
           | Some a \<Rightarrow>
               let p1 = then_promise p0 (\<lambda>client. post client
                      \<lparr>req_url = url client ''/job/update'',
                       req_json = changes,
                       req_formData = None\<rparr>);
                   p2 = spread p1 (validateResponse a);
                   p3 = spread p2 (\<lambda>r. Inr (body r, that));
                   p4 = catch_promise p3 (Prism_handleNetworkError that)
               in finish that p4))"

definition jobStart :: "api_module \<Rightarrow> prism_object \<Rightarrow> jsval \<Rightarrow> jsval result" where
  "jobStart api_mod that handle =
     (case prepare api_mod that None JUndefined of
        Throws e \<Rightarrow> \<lparr>returned = Throws e, after = that\<rparr>
      | Returns p0 \<Rightarrow>
          (case api that of
             None \<Rightarrow>
               \<lparr>returned = Throws (TypeError ''that.api.validateResponse is not a function''),
                after = that\<rparr>
           | Some a \<Rightarrow>
               let p1 = then_promise p0 (\<lambda>client. post client
                      \<lparr>req_url = url client ''/job/start'',
                       req_json = JObj [(''handle'', handle)],
                       req_formData = None\<rparr>);
                   p2 = spread p1 (validateResponse a);
                   p3 = spread p2 (\<lambda>r. Inr (body r, that));
                   p4 = catch_promise p3 (Prism_handleNetworkError that)
               in finish that p4))"

definition jobAbort :: "api_module \<Rightarrow> prism_object \<Rightarrow> jsval \<Rightarrow> jsval result" where
  "jobAbort api_mod that handle =
     (case prepare api_mod that None JUndefined of
        Throws e \<Rightarrow> \<lparr>returned = Throws e, after = that\<rparr>
      | Returns p0 \<Rightarrow>
          (case api that of
             None \<Rightarrow>
               \<lparr>returned = Throws (TypeError ''that.api.validateResponse is not a function''),
                after = that\<rparr>
           | Some a \<Rightarrow>
               let p1 = then_promise p0 (\<lambda>client. post client
                      \<lparr>req_url = url client ''/job/abort'',
                       req_json = JObj [(''handle'', handle)],
                       req_formData = None\<rparr>);
                   p2 = spread p1 (validateResponse a);
                   p3 = spread p2 (\<lambda>r. Inr (body r, that));
                   p4 = catch_promise p3 (Prism_handleNetworkError that)
               in finish that p4))"

definition jobRetry :: "api_module \<Rightarrow> prism_object \<Rightarrow> jsval \<Rightarrow> jsval result" where
  "jobRetry api_mod that handle =
     (case prepare api_mod that None JUndefined of
        Throws e \<Rightarrow> \<lparr>returned = Throws e, after = that\<rparr>
      | Returns p0 \<Rightarrow>
          (case api that of
             None \<Rightarrow>
               \<lparr>returned = Throws (TypeError ''that.api.validateResponse is not a function''),
                after = that\<rparr>
           | Some a \<Rightarrow>
               let p1 = then_promise p0 (\<lambda>client. post client
                      \<lparr>req_url = url client ''/job/retry'',
                       req_json = JObj [(''handle'', handle)],
                       req_formData = None\<rparr>);
                   p2 = spread p1 (validateResponse a);
                   p3 = spread p2 (\<lambda>r. Inr (body r, that));
                   p4 = catch_promise p3 (Prism_handleNetworkError that)
               in finish that p4))"

definition jobRemove :: "api_module \<Rightarrow> prism_object \<Rightarrow> jsval \<Rightarrow> jsval result" where
  "jobRemove api_mod that handle =
     (case prepare api_mod that None JUndefined of
        Throws e \<Rightarrow> \<lparr>returned = Throws e, after = that\<rparr>
      | Returns p0 \<Rightarrow>
          (case api that of
             None \<Rightarrow>
               \<lparr>returned = Throws (TypeError ''that.api.validateResponse is not a function''),
                after = that\<rparr>
           | Some a \<Rightarrow>
               let p1 = then_promise p0 (\<lambda>client. post client
                      \<lparr>req_url = url client ''/job/remove'',
                       req_json = JObj [(''handle'', handle)],
                       req_formData = None\<rparr>);
                   p2 = spread p1 (validateResponse a);
                   p3 = spread p2 (\<lambda>r. Inr (body r, that));
                   p4 = catch_promise p3 (Prism_handleNetworkError that)
               in finish that p4))"

definition jobContentExists :: "api_module \<Rightarrow> prism_object \<Rightarrow> jsval \<Rightarrow> jsval \<Rightarrow> jsval result" where
  "jobContentExists api_mod that handle file =
     (case prepare api_mod that None JUndefined of
        Throws e \<Rightarrow> \<lparr>returned = Throws e, after = that\<rparr>
      | Returns p0 \<Rightarrow>
          (case api that of
             None \<Rightarrow>
               \<lparr>returned = Throws (TypeError ''that.api.validateResponse is not a function''),
                after = that\<rparr>
           | Some a \<Rightarrow>
               let p1 = then_promise p0 (\<lambda>client. post client
                      \<lparr>req_url = url client ''/job/content/exists'',
                       req_json = JObj [(''handle'', handle), (''file'', file)],
                       req_formData = None\<rparr>);
                   p2 = spread p1 (validateResponse a);
                   p3 = spread p2 (\<lambda>r.
                          case get_prop (body r) ''exists'' of
                            Inl e \<Rightarrow> Inl e
                          | Inr v \<Rightarrow> Inr (JBool (truthy v), that));
                   p4 = catch_promise p3 (Prism_handleNetworkError that)
               in finish that p4))"


section \<open>Observations and a concrete API helper\<close>

text \<open>The requests that a call has put on the wire: none when it threw before returning
  a promise.\<close>

definition requests_sent :: "'a result \<Rightarrow> request list" where
  "requests_sent r = (case returned r of Throws e \<Rightarrow> [] | Returns p \<Rightarrow> posts p)"

text \<open>
  A concrete helper on which the operations can be run. Its request client addresses
  \<^verbatim>\<open>https://host:port\<close>, answers every POST with what \<open>net\<close> says, accepts a reply
  when its status code is 200, and re-throws what it catches: a user error as it is, any
  other error as one normalized network error. Binding a session to a request client gives
  back that client with the session's token under the given header name; handed the empty
  object, the binding throws a TypeError.
\<close>

definition sample_accessor :: "(request \<Rightarrow> error + reply) \<Rightarrow> prism_opts \<Rightarrow> accessor" where
  "sample_accessor net po =
     \<lparr>url = (\<lambda>uri. ''https://'' @ toString (host po) @ '':'' @ toString (port po) @ uri),
      postAsync = net,
      validateResponse =
        (\<lambda>r. if get_prop (res r) ''statusCode'' = Inr (JNum 200) then Inr r
              else Inl (UserError ''Invalid response code'')),
      handleNetworkError =
        (\<lambda>e. case e of UserError m \<Rightarrow> UserError m | _ \<Rightarrow> NetworkError ''normalized''),
      headers = []\<rparr>"

definition sample_api :: "(request \<Rightarrow> error + reply) \<Rightarrow> api_module" where
  "sample_api net =
     \<lparr>api_setupAccess = (\<lambda>type po. sample_accessor net po),
      api_prism = sample_accessor net,
      api_setSession =
        (\<lambda>session request tokenName.
           case request of
             None \<Rightarrow> sample_accessor net \<lparr>host = JUndefined, port = JUndefined\<rparr>
           | Some r \<Rightarrow>
               r\<lparr>headers :=
                   headers r @
                   [(tokenName,
                     case get_prop session ''token'' of Inl e \<Rightarrow> JUndefined | Inr t \<Rightarrow> t)]\<rparr>),
      api_setSession_empty =
        (\<lambda>session tokenName. Some (TypeError ''request.defaults is not a function''))\<rparr>"

text \<open>Three networks: one that resets every connection, one that answers 500 with an
  error body, one that answers 200 with an empty object.\<close>

definition net_reset :: "request \<Rightarrow> error + reply" where
  "net_reset req = Inl (Error ''ECONNRESET'')"

definition reply_500 :: reply where
  "reply_500 =
     \<lparr>res = JObj [(''statusCode'', JNum 500)], body = JObj [(''error'', JStr ''failed'')]\<rparr>"

definition net_500 :: "request \<Rightarrow> error + reply" where
  "net_500 req = Inr reply_500"

definition reply_empty :: reply where
  "reply_empty = \<lparr>res = JObj [(''statusCode'', JNum 200)], body = JObj []\<rparr>"

definition net_empty :: "request \<Rightarrow> error + reply" where
  "net_empty req = Inr reply_empty"

text \<open>A client that has connected to \<^verbatim>\<open>example.com\<close> and been given a session token.\<close>

definition ready :: "(request \<Rightarrow> error + reply) \<Rightarrow> prism_object" where
  "ready net =
     setSession
       (after (connect (sample_api net) (Prism id) (JStr ''example.com'') JUndefined))
       (JStr ''tok'')"

text \<open>A serializer and the other built-ins for the examples: the JSON text of a value whose
  strings hold no control characters; an object leaves out its undefined members, an array
  writes them as \<^verbatim>\<open>null\<close>, and \<^verbatim>\<open>JSON.stringify(undefined)\<close> is \<^verbatim>\<open>undefined\<close>.\<close>

fun json_quote :: "string \<Rightarrow> string" where
  "json_quote s =
     CHR 0x22 #
     concat (map (\<lambda>c. if c = CHR 0x22 \<or> c = CHR 0x5C then [CHR 0x5C, c] else [c]) s) @
     [CHR 0x22]"

fun json_text :: "jsval \<Rightarrow> string" where
  "json_text JUndefined = ''null''"
| "json_text JNull = ''null''"
| "json_text (JBool b) = (if b then ''true'' else ''false'')"
| "json_text (JNum n) = toString (JNum n)"
| "json_text (JStr s) = json_quote s"
| "json_text (JArr xs) = ''['' @ join_comma (map json_text xs) @ '']''"
| "json_text (JObj kvs) =
     ''{'' @ join_comma (map (\<lambda>kv. json_quote (fst kv) @ '':'' @ json_text (snd kv))
              (filter (\<lambda>kv. snd kv \<noteq> JUndefined) kvs)) @ ''}''"

definition sample_node :: node where
  "sample_node =
     \<lparr>JSON_stringify = (\<lambda>v. if v = JUndefined then JUndefined else JStr (json_text v)),
      path_extname =
        (\<lambda>v. case v of JStr s \<Rightarrow> Inr [] | _ \<Rightarrow> Inl (TypeError ''Path must be a string'')),
      path_resolve = Inr,
      fs_createReadStream = Inr\<rparr>"


section \<open>Auxiliary facts\<close>

lemmas chain_defs =
  P_try_def post_def then_promise_def spread_def catch_promise_def finish_def
  Prism_handleNetworkError_def prepare_def setSession_throws_def isConnected_def
  isAuthenticated_def requests_sent_def

lemmas sample_defs =
  ready_def sample_api_def sample_accessor_def setSession_def connect_def Prism_def
  default_opts_def set_prism_host_def set_prism_port_def or_js_def net_reset_def
  net_500_def net_empty_def reply_500_def reply_empty_def

lemma posts_finish: "requests_sent (finish that p) = posts p"
  by (simp add: finish_def requests_sent_def split: sum.splits prod.splits)

lemma posts_catch: "posts (catch_promise p h) = posts p"
  by (simp add: catch_promise_def split: option.splits sum.splits)

lemma posts_spread: "posts (spread p f) = posts p"
  by (simp add: spread_def split: sum.splits)

lemma posts_then_post: "posts (then_promise (P_try client) (\<lambda>c. post c (mk c))) = [mk client]"
  by (simp add: then_promise_def P_try_def post_def)

lemma prepare_ready:
  "connected that \<Longrightarrow> authenticated that \<Longrightarrow> api that = Some a \<Longrightarrow>
   prepare api_mod that None JUndefined =
     Returns (P_try (api_setSession api_mod (session that) (api that) ''X-OOSE-Token''))"
  by (simp add: prepare_def setSession_throws_def isConnected_def isAuthenticated_def)

text \<open>\<^verbatim>\<open>connect\<close> always leaves a request client behind, so a connected client, as
  \<^verbatim>\<open>connect\<close> makes it, never hands the empty object to \<^verbatim>\<open>api.setSession\<close>.\<close>

lemma connect_sets_api:
  "api (after (connect api_mod that host_arg port_arg)) \<noteq> None
   \<and> connected (after (connect api_mod that host_arg port_arg))"
  by (simp add: connect_def Let_def)


section \<open>Error handling\<close>

text \<open>
  C1. Every content and job operation, \<^verbatim>\<open>logout\<close> and \<^verbatim>\<open>login\<close> should hand a failure
  of the request to the shared network-error handler and reject with what the handler
  throws. \<^verbatim>\<open>login\<close> does: on a client whose transport resets the connection it rejects
  with the handler's normalized error. \<^verbatim>\<open>contentDetail\<close> on the same client, with the
  same transport and the same handler, rejects with the raw transport error: its chain ends
  in \<^verbatim>\<open>.catch(that.handleNetworkError)\<close>, and the Prism object has no such member.
\<close>

theorem contentDetail_rejection_not_normalized:
  "returned (contentDetail (sample_api net_reset) (ready net_reset) (JStr ''abc'')) =
     Returns (Promise (Inl (Error ''ECONNRESET''))
       [\<lparr>req_url = ''https://example.com:5971/content/detail'',
         req_json = JObj [(''hash'', JStr ''abc'')], req_formData = None\<rparr>])
   \<and> map_option (\<lambda>a. handleNetworkError a (Error ''ECONNRESET'')) (api (ready net_reset)) =
       Some (NetworkError ''normalized'')
   \<and> returned (login (ready net_reset) JUndefined JUndefined) =
     Returns (Promise (Inl (NetworkError ''normalized''))
       [\<lparr>req_url = ''https://example.com:5971/user/login'',
         req_json = JObj [(''username'', JStr ''''), (''password'', JStr '''')],
         req_formData = None\<rparr>])"
  by (simp add: contentDetail_def login_def chain_defs sample_defs digits.simps)

text \<open>
  C2. Every operation that POSTs should pass the reply through the shared validation
  step before it returns the body. \<^verbatim>\<open>jobDetail\<close> does not: for a reply with status 500,
  which the validation step rejects (as \<^verbatim>\<open>jobStart\<close> shows on the same reply),
  \<^verbatim>\<open>jobDetail\<close> resolves to the body of that reply.
\<close>

theorem jobDetail_skips_validation:
  "returned (jobDetail (sample_api net_500) (ready net_500) (JStr ''h1'')) =
     Returns (Promise (Inr (JObj [(''error'', JStr ''failed'')]))
       [\<lparr>req_url = ''https://example.com:5971/job/detail'',
         req_json = JObj [(''handle'', JStr ''h1'')], req_formData = None\<rparr>])
   \<and> returned (jobStart (sample_api net_500) (ready net_500) (JStr ''h1'')) =
     Returns (Promise (Inl (UserError ''Invalid response code''))
       [\<lparr>req_url = ''https://example.com:5971/job/start'',
         req_json = JObj [(''handle'', JStr ''h1'')], req_formData = None\<rparr>])"
  by (simp add: jobDetail_def jobStart_def chain_defs sample_defs digits.simps)

text \<open>
  C3, as stated, says that after a login whose reply has no session the authenticated flag
  is false, for a client in any state. A client that already holds a session (here through
  \<^verbatim>\<open>setSession\<close>) is authenticated before the login and stays so after it: the reply is
  received, it has no session member, the login rejects with the user error, and the flag
  is still true.
\<close>

theorem login_no_session_counterexample:
  "postAsync (sample_accessor net_empty \<lparr>host = JStr ''example.com'', port = JNum 5971\<rparr>)
      \<lparr>req_url = ''https://example.com:5971/user/login'',
       req_json = JObj [(''username'', JStr ''''), (''password'', JStr '''')],
       req_formData = None\<rparr> = Inr reply_empty
   \<and> get_prop (body reply_empty) ''session'' = Inr JUndefined
   \<and> returned (login (ready net_empty) JUndefined JUndefined) =
     Returns (Promise (Inl (UserError ''Login failed, no session''))
       [\<lparr>req_url = ''https://example.com:5971/user/login'',
         req_json = JObj [(''username'', JStr ''''), (''password'', JStr '''')],
         req_formData = None\<rparr>])
   \<and> authenticated (after (login (ready net_empty) JUndefined JUndefined)) \<noteq> False"
  by (simp add: login_def chain_defs sample_defs digits.simps)

text \<open>
  C3, amended. For every client, if \<^verbatim>\<open>login\<close> receives a response whose body lacks a
  session field, \<^verbatim>\<open>login\<close> rejects with a user-facing error, distinct from a network
  failure, and the client's authenticated flag and its stored session are unchanged (the
  flag remains false when it was false before). In full: the request client is set up, the
  POST is answered, the reply passes validation and the validated body has no
  \<^verbatim>\<open>session\<close> member; then \<^verbatim>\<open>login\<close> raises the user error
  \<^verbatim>\<open>Login failed, no session\<close>, which like every failure of the chain goes to the shared
  handler, and rejects with what the handler throws for it, which is that user error itself
  whenever the handler re-throws it as it is; exactly the login request has been sent; and
  the object is left as it was.
\<close>

theorem login_no_session:
  assumes "api that = Some a"
    and "postAsync a
           \<lparr>req_url = url a ''/user/login'',
            req_json = JObj
              [(''username'', or_js username_arg (username (opts that))),
               (''password'', or_js password_arg (password (opts that)))],
            req_formData = None\<rparr> = Inr r"
    and "validateResponse a r = Inr r'"
    and "get_prop (body r') ''session'' = Inr JUndefined"
  shows "returned (login that username_arg password_arg) =
           Returns (Promise
             (Inl (handleNetworkError a (UserError ''Login failed, no session'')))
             [\<lparr>req_url = url a ''/user/login'',
               req_json = JObj
                 [(''username'', or_js username_arg (username (opts that))),
                  (''password'', or_js password_arg (password (opts that)))],
               req_formData = None\<rparr>])
         \<and> after (login that username_arg password_arg) = that
         \<and> (handleNetworkError a (UserError ''Login failed, no session'') =
               UserError ''Login failed, no session'' \<longrightarrow>
             returned (login that username_arg password_arg) =
               Returns (Promise
                 (Inl (UserError ''Login failed, no session''))
                 [\<lparr>req_url = url a ''/user/login'',
                   req_json = JObj
                     [(''username'', or_js username_arg (username (opts that))),
                      (''password'', or_js password_arg (password (opts that)))],
                   req_formData = None\<rparr>]))"
  using assms by (simp add: login_def chain_defs)

theorem login_no_session_witness:
  "api (after (connect (sample_api net_empty) (Prism id) JUndefined JUndefined)) =
     Some (sample_accessor net_empty \<lparr>host = JStr ''cdn.oose.io'', port = JNum 5971\<rparr>)
   \<and> validateResponse
        (sample_accessor net_empty \<lparr>host = JStr ''cdn.oose.io'', port = JNum 5971\<rparr>)
        reply_empty = Inr reply_empty
   \<and> get_prop (body reply_empty) ''session'' = Inr JUndefined
   \<and> handleNetworkError
        (sample_accessor net_empty \<lparr>host = JStr ''cdn.oose.io'', port = JNum 5971\<rparr>)
        (UserError ''Login failed, no session'') = UserError ''Login failed, no session''
   \<and> handleNetworkError
        (sample_accessor net_empty \<lparr>host = JStr ''cdn.oose.io'', port = JNum 5971\<rparr>)
        (Error ''ECONNRESET'') = NetworkError ''normalized''
   \<and> returned (login (after (connect (sample_api net_empty) (Prism id) JUndefined JUndefined))
         (JStr ''u'') (JStr ''p'')) =
       Returns (Promise (Inl (UserError ''Login failed, no session''))
         [\<lparr>req_url = ''https://cdn.oose.io:5971/user/login'',
           req_json = JObj [(''username'', JStr ''u''), (''password'', JStr ''p'')],
           req_formData = None\<rparr>])
   \<and> authenticated (after (login
         (after (connect (sample_api net_empty) (Prism id) JUndefined JUndefined))
         (JStr ''u'') (JStr ''p''))) = False
   \<and> session (after (login
         (after (connect (sample_api net_empty) (Prism id) JUndefined JUndefined))
         (JStr ''u'') (JStr ''p''))) = JObj []"
  using login_no_session
    [of "after (connect (sample_api net_empty) (Prism id) JUndefined JUndefined)"
        "sample_accessor net_empty \<lparr>host = JStr ''cdn.oose.io'', port = JNum 5971\<rparr>"
        "JStr ''u''" "JStr ''p''" reply_empty reply_empty]
  by (simp add: sample_defs digits.simps)

text \<open>
  C4. \<^verbatim>\<open>prepare\<close> fails with a local error whenever the client is not connected or not
  authenticated: it throws, so no promise is returned and nothing is posted. The error is
  the one that \<^verbatim>\<open>api.setSession\<close> throws when that call, which comes first, throws (it
  can on the empty object that an unconnected client holds); otherwise it is the user error
  \<^verbatim>\<open>Not connected\<close> for a client that is not connected, and \<^verbatim>\<open>Not authenticated\<close> for
  one that is connected but not authenticated. When the client is connected and
  authenticated and has a request client (its own, as \<^verbatim>\<open>connect\<close> leaves it, or the one
  given), \<^verbatim>\<open>prepare\<close> returns a promise that is fulfilled with the request client that
  \<^verbatim>\<open>api.setSession\<close> binds to the session (the given one, or the client's own) under the
  header \<^verbatim>\<open>X-OOSE-Token\<close>, and that promise has issued no request.
\<close>

theorem prepare_guard:
  "(\<not> connected that \<or> \<not> authenticated that \<longrightarrow>
      (\<exists>e. prepare api_mod that request_arg session_arg = Throws e))
   \<and> (setSession_throws api_mod
         (if truthy session_arg then session_arg else session that)
         (case request_arg of None \<Rightarrow> api that | Some r \<Rightarrow> Some r)
         ''X-OOSE-Token'' = Some err \<longrightarrow>
      prepare api_mod that request_arg session_arg = Throws err)
   \<and> (setSession_throws api_mod
         (if truthy session_arg then session_arg else session that)
         (case request_arg of None \<Rightarrow> api that | Some r \<Rightarrow> Some r)
         ''X-OOSE-Token'' = None \<and> \<not> connected that \<longrightarrow>
      prepare api_mod that request_arg session_arg = Throws (UserError ''Not connected''))
   \<and> (setSession_throws api_mod
         (if truthy session_arg then session_arg else session that)
         (case request_arg of None \<Rightarrow> api that | Some r \<Rightarrow> Some r)
         ''X-OOSE-Token'' = None \<and> connected that \<and> \<not> authenticated that \<longrightarrow>
      prepare api_mod that request_arg session_arg = Throws (UserError ''Not authenticated''))
   \<and> (connected that \<and> authenticated that
       \<and> (case request_arg of None \<Rightarrow> api that | Some r \<Rightarrow> Some r) = Some rq \<longrightarrow>
      prepare api_mod that request_arg session_arg =
        Returns (Promise
          (Inr (api_setSession api_mod
                  (if truthy session_arg then session_arg else session that)
                  (Some rq)
                  ''X-OOSE-Token''))
          []))"
  by (auto simp add: chain_defs Let_def split: option.splits)

theorem prepare_guard_witness:
  "\<not> connected (Prism id)
   \<and> setSession_throws (sample_api net_reset) (session (Prism id)) (api (Prism id))
        ''X-OOSE-Token'' = Some (TypeError ''request.defaults is not a function'')
   \<and> prepare (sample_api net_reset) (Prism id) None JUndefined =
       Throws (TypeError ''request.defaults is not a function'')
   \<and> \<not> connected (setSession (Prism id) (JStr ''tok''))
   \<and> prepare (sample_api net_reset) (setSession (Prism id) (JStr ''tok''))
        (Some (sample_accessor net_reset \<lparr>host = JStr ''example.com'', port = JNum 5971\<rparr>))
        JUndefined = Throws (UserError ''Not connected'')
   \<and> connected (after (connect (sample_api net_reset) (Prism id) JUndefined JUndefined))
   \<and> \<not> authenticated (after (connect (sample_api net_reset) (Prism id) JUndefined JUndefined))
   \<and> prepare (sample_api net_reset)
        (after (connect (sample_api net_reset) (Prism id) JUndefined JUndefined))
        None JUndefined = Throws (UserError ''Not authenticated'')
   \<and> connected (ready net_reset) \<and> authenticated (ready net_reset)
   \<and> api (ready net_reset) =
       Some (sample_accessor net_reset \<lparr>host = JStr ''example.com'', port = JNum 5971\<rparr>)
   \<and> prepare (sample_api net_reset) (ready net_reset) None JUndefined =
       Returns (Promise
         (Inr ((sample_accessor net_reset \<lparr>host = JStr ''example.com'', port = JNum 5971\<rparr>)
                 \<lparr>headers := [(''X-OOSE-Token'', JStr ''tok'')]\<rparr>))
         [])"
  using prepare_guard
      [of "Prism id" "sample_api net_reset" None JUndefined
          "TypeError ''request.defaults is not a function''"]
    prepare_guard
      [of "setSession (Prism id) (JStr ''tok'')" "sample_api net_reset"
          "Some (sample_accessor net_reset \<lparr>host = JStr ''example.com'', port = JNum 5971\<rparr>)"
          JUndefined]
    prepare_guard
      [of "after (connect (sample_api net_reset) (Prism id) JUndefined JUndefined)"
          "sample_api net_reset" None JUndefined]
    prepare_guard
      [of "ready net_reset" "sample_api net_reset" None JUndefined _
          "sample_accessor net_reset \<lparr>host = JStr ''example.com'', port = JNum 5971\<rparr>"]
  by (simp add: sample_defs setSession_throws_def)


section \<open>Connection and session\<close>

text \<open>
  C5, as stated, says that \<^verbatim>\<open>connect\<close> without a host falls back to the configured
  domain and resolves to it. A client whose prism host is already set (here by an earlier
  \<^verbatim>\<open>connect('a.example.com', 8080)\<close>) keeps that host and that port, and resolves to that
  host, although its configured domain is still \<^verbatim>\<open>cdn.oose.io\<close>.
\<close>

theorem connect_fallback_counterexample:
  "returned (connect (sample_api net_reset)
      (after (connect (sample_api net_reset) (Prism id) (JStr ''a.example.com'') (JNum 8080)))
      JUndefined JUndefined) = Returns (Promise (Inr (JStr ''a.example.com'')) [])
   \<and> domain (opts (after (connect (sample_api net_reset) (Prism id)
        (JStr ''a.example.com'') (JNum 8080)))) = JStr ''cdn.oose.io''
   \<and> prism (opts (after (connect (sample_api net_reset)
        (after (connect (sample_api net_reset) (Prism id) (JStr ''a.example.com'') (JNum 8080)))
        JUndefined JUndefined))) = \<lparr>host = JStr ''a.example.com'', port = JNum 8080\<rparr>"
  by (simp add: sample_defs chain_defs)

text \<open>
  C5, amended. For every host and port argument, \<^verbatim>\<open>connect(host, port)\<close> sets the
  connected flag. When a host is given (a truthy value), it becomes the prism host, the
  port argument becomes the prism port when it is given too, and the promise resolves to
  that host without any request. When the host is omitted, the prism host that is already
  configured is kept, and only when there is none does the client fall back to the
  configured domain; likewise the configured port is kept, and only when there is none is
  it set to the port argument or else 5971; the promise resolves to the resulting prism
  host without any request.
\<close>

theorem connect_resolves:
  "connected (after (connect api_mod that host_arg port_arg))
   \<and> (truthy host_arg \<longrightarrow>
        prism (opts (after (connect api_mod that host_arg port_arg))) =
          \<lparr>host = host_arg,
           port = (if truthy port_arg then port_arg else port (prism (opts that)))\<rparr>
        \<and> returned (connect api_mod that host_arg port_arg) =
            Returns (Promise (Inr host_arg) []))
   \<and> (\<not> truthy host_arg \<longrightarrow>
        prism (opts (after (connect api_mod that host_arg port_arg))) =
          \<lparr>host = (if truthy (host (prism (opts that))) then host (prism (opts that))
                   else domain (opts that)),
           port = (if truthy (port (prism (opts that))) then port (prism (opts that))
                   else if truthy port_arg then port_arg else JNum 5971)\<rparr>
        \<and> returned (connect api_mod that host_arg port_arg) =
            Returns (Promise
              (Inr (if truthy (host (prism (opts that))) then host (prism (opts that))
                    else domain (opts that))) []))"
  by (simp add: connect_def Let_def set_prism_host_def set_prism_port_def or_js_def P_try_def)

theorem connect_resolves_witness:
  "truthy (JStr ''example.com'')
   \<and> connected
        (after (connect (sample_api net_reset) (Prism id) (JStr ''example.com'') (JNum 443)))
   \<and> prism (opts (after (connect (sample_api net_reset) (Prism id)
        (JStr ''example.com'') (JNum 443)))) = \<lparr>host = JStr ''example.com'', port = JNum 443\<rparr>
   \<and> returned (connect (sample_api net_reset) (Prism id) (JStr ''example.com'') (JNum 443)) =
       Returns (Promise (Inr (JStr ''example.com'')) [])
   \<and> \<not> truthy JUndefined
   \<and> connected (after (connect (sample_api net_reset) (Prism id) JUndefined JUndefined))
   \<and> prism (opts (after (connect (sample_api net_reset) (Prism id) JUndefined JUndefined))) =
       \<lparr>host = JStr ''cdn.oose.io'', port = JNum 5971\<rparr>
   \<and> returned (connect (sample_api net_reset) (Prism id) JUndefined JUndefined) =
       Returns (Promise (Inr (JStr ''cdn.oose.io'')) [])"
  using connect_resolves [of "sample_api net_reset" "Prism id" "JStr ''example.com''" "JNum 443"]
    connect_resolves [of "sample_api net_reset" "Prism id" JUndefined JUndefined]
  by (simp add: Prism_def default_opts_def)

text \<open>
  C6. For every token and every client, connected or not, \<^verbatim>\<open>setSession(token)\<close> makes
  \<^verbatim>\<open>isAuthenticated()\<close> true at once and stores the token as the session
  \<^verbatim>\<open>{token: token}\<close>. It returns the object itself, not a promise: nothing is posted, and
  the connection flag, the request client and the options are as before.
\<close>

theorem setSession_authenticates:
  "isAuthenticated (setSession that token)
   \<and> session (setSession that token) = JObj [(''token'', token)]
   \<and> connected (setSession that token) = connected that
   \<and> api (setSession that token) = api that
   \<and> opts (setSession that token) = opts that"
  by (simp add: setSession_def isAuthenticated_def)


section \<open>Request payloads\<close>

text \<open>
  C7. For every description and priority, \<^verbatim>\<open>jobCreate\<close> called without a category on a
  connected and authenticated client sends exactly one request, to \<^verbatim>\<open>/job/create\<close> of
  the session-bound client, whose payload has \<^verbatim>\<open>category\<close> equal to the string
  \<^verbatim>\<open>resource\<close> and \<^verbatim>\<open>description\<close> equal to \<^verbatim>\<open>JSON.stringify\<close> of the description
  argument (and \<^verbatim>\<open>priority\<close> equal to the argument, or \<^verbatim>\<open>null\<close>). With a category the
  request is the same but for \<^verbatim>\<open>category\<close>, which is then the argument.
\<close>

theorem jobCreate_payload:
  assumes "connected that" and "authenticated that" and "api that = Some a"
  shows "requests_sent (jobCreate node_rt api_mod that description priority JUndefined) =
           [\<lparr>req_url =
               url (api_setSession api_mod (session that) (api that) ''X-OOSE-Token'')
                 ''/job/create'',
             req_json = JObj
               [(''description'', JSON_stringify node_rt description),
                (''priority'', or_js priority JNull),
                (''category'', JStr ''resource'')],
             req_formData = None\<rparr>]
         \<and> requests_sent (jobCreate node_rt api_mod that description priority category) =
           [\<lparr>req_url =
               url (api_setSession api_mod (session that) (api that) ''X-OOSE-Token'')
                 ''/job/create'',
             req_json = JObj
               [(''description'', JSON_stringify node_rt description),
                (''priority'', or_js priority JNull),
                (''category'', if truthy category then category else JStr ''resource'')],
             req_formData = None\<rparr>]"
  using assms
  by (simp add: jobCreate_def prepare_ready posts_finish posts_catch posts_spread
      posts_then_post Let_def or_js_def)

theorem jobCreate_payload_witness:
  "connected (ready net_reset) \<and> authenticated (ready net_reset)
   \<and> api (ready net_reset) =
       Some (sample_accessor net_reset \<lparr>host = JStr ''example.com'', port = JNum 5971\<rparr>)
   \<and> requests_sent (jobCreate sample_node (sample_api net_reset) (ready net_reset)
        (JObj [(''a'', JNum 1)]) JUndefined JUndefined) =
       [\<lparr>req_url = ''https://example.com:5971/job/create'',
         req_json = JObj
           [(''description'', JStr [CHR ''{'', CHR 0x22, CHR ''a'', CHR 0x22, CHR '':'',
               CHR ''1'', CHR ''}'']),
            (''priority'', JNull),
            (''category'', JStr ''resource'')],
         req_formData = None\<rparr>]
   \<and> requests_sent (jobCreate sample_node (sample_api net_reset) (ready net_reset)
        (JObj [(''a'', JNum 1)]) JUndefined (JStr ''augment'')) =
       [\<lparr>req_url = ''https://example.com:5971/job/create'',
         req_json = JObj
           [(''description'', JStr [CHR ''{'', CHR 0x22, CHR ''a'', CHR 0x22, CHR '':'',
               CHR ''1'', CHR ''}'']),
            (''priority'', JNull),
            (''category'', JStr ''augment'')],
         req_formData = None\<rparr>]"
  using jobCreate_payload
    [of "ready net_reset"
        "sample_accessor net_reset \<lparr>host = JStr ''example.com'', port = JNum 5971\<rparr>"
        sample_node "sample_api net_reset" "JObj [(''a'', JNum 1)]" JUndefined
        "JStr ''augment''"]
  by (simp add: sample_defs sample_node_def digits.simps)

text \<open>
  C10. For every handle and every changes object, \<^verbatim>\<open>jobUpdate(handle, changes)\<close> on a
  connected and authenticated client sends exactly one request, to \<^verbatim>\<open>/job/update\<close> of
  the session-bound client, whose JSON body is the changes argument itself; and whatever the
  client's state, the call does the same for any two handles, so the handle is nowhere in
  what is sent.
\<close>

theorem jobUpdate_payload:
  assumes "connected that" and "authenticated that" and "api that = Some a"
  shows "requests_sent (jobUpdate api_mod that handle changes) =
           [\<lparr>req_url =
               url (api_setSession api_mod (session that) (api that) ''X-OOSE-Token'')
                 ''/job/update'',
             req_json = changes,
             req_formData = None\<rparr>]
         \<and> jobUpdate api_mod that handle changes = jobUpdate api_mod that handle' changes"
  using assms
  by (simp add: jobUpdate_def prepare_ready posts_finish posts_catch posts_spread
      posts_then_post Let_def)

theorem jobUpdate_payload_witness:
  "connected (ready net_reset) \<and> authenticated (ready net_reset)
   \<and> api (ready net_reset) =
       Some (sample_accessor net_reset \<lparr>host = JStr ''example.com'', port = JNum 5971\<rparr>)
   \<and> requests_sent (jobUpdate (sample_api net_reset) (ready net_reset) (JStr ''h1'')
        (JObj [(''priority'', JNum 3)])) =
       [\<lparr>req_url = ''https://example.com:5971/job/update'',
         req_json = JObj [(''priority'', JNum 3)],
         req_formData = None\<rparr>]"
  using jobUpdate_payload
    [of "ready net_reset"
        "sample_accessor net_reset \<lparr>host = JStr ''example.com'', port = JNum 5971\<rparr>"
        "sample_api net_reset" "JStr ''h1''" "JObj [(''priority'', JNum 3)]"]
  by (simp add: sample_defs digits.simps)


section \<open>Built URLs\<close>

text \<open>
  C8. \<^verbatim>\<open>urlPurchase\<close> and \<^verbatim>\<open>urlStatic\<close> only build a string. For every purchase
  object with token \<open>t\<close> and extension \<open>e\<close>, \<^verbatim>\<open>urlPurchase\<close> returns
  \<^verbatim>\<open>//<domain>/t/<name>.e\<close>, the name being \<^verbatim>\<open>video\<close> when it is omitted; for every
  hash \<open>h\<close>, \<^verbatim>\<open>urlStatic\<close> returns \<^verbatim>\<open>//<domain>/static/h/<name>.<ext>\<close>, the name being
  \<^verbatim>\<open>file\<close> and the extension \<^verbatim>\<open>bin\<close> when they are omitted.
\<close>

theorem url_builders:
  assumes "get_prop purchase ''token'' = Inr t" and "get_prop purchase ''ext'' = Inr e"
  shows "urlPurchase that purchase name_arg =
           Inr (''//'' @ toString (domain (opts that)) @ ''/'' @ toString t @ ''/'' @
                (if truthy name_arg then toString name_arg else ''video'') @ ''.'' @ toString e)
         \<and> urlStatic that hash ext_arg name_arg =
             ''//'' @ toString (domain (opts that)) @ ''/static/'' @ toString hash @ ''/'' @
             (if truthy name_arg then toString name_arg else ''file'') @ ''.'' @
             (if truthy ext_arg then toString ext_arg else ''bin'')"
  using assms by (simp add: urlPurchase_def urlStatic_def or_js_def Let_def)

theorem url_builders_witness:
  "get_prop (JObj [(''token'', JStr ''t''), (''ext'', JStr ''mp4'')]) ''token'' = Inr (JStr ''t'')
   \<and> get_prop (JObj [(''token'', JStr ''t''), (''ext'', JStr ''mp4'')]) ''ext'' =
       Inr (JStr ''mp4'')
   \<and> urlPurchase (Prism id) (JObj [(''token'', JStr ''t''), (''ext'', JStr ''mp4'')])
        JUndefined = Inr ''//cdn.oose.io/t/video.mp4''
   \<and> urlStatic (Prism id) (JStr ''abc123'') JUndefined JUndefined =
       ''//cdn.oose.io/static/abc123/file.bin''
   \<and> urlPurchase (Prism id) (JObj [(''token'', JStr ''t''), (''ext'', JStr ''mp4'')])
        (JStr ''x'') = Inr ''//cdn.oose.io/t/x.mp4''
   \<and> urlStatic (Prism id) (JStr ''abc123'') (JStr ''jpg'') (JStr ''x'') =
       ''//cdn.oose.io/static/abc123/x.jpg''"
  using url_builders
    [of "JObj [(''token'', JStr ''t''), (''ext'', JStr ''mp4'')]" "JStr ''t''" "JStr ''mp4''"
        "Prism id" JUndefined "JStr ''abc123''" JUndefined]
    url_builders
    [of "JObj [(''token'', JStr ''t''), (''ext'', JStr ''mp4'')]" "JStr ''t''" "JStr ''mp4''"
        "Prism id" "JStr ''x''" "JStr ''abc123''" "JStr ''jpg''"]
  by (simp add: Prism_def default_opts_def)

text \<open>
  C9. For every handle and file, \<^verbatim>\<open>jobContentUrl(handle, file)\<close> is the string
  \<^verbatim>\<open>https://<host>:<port>/job/content/download/<handle>/<file>\<close> with the client's prism
  host and port (the port in decimal), and only a string; with host \<^verbatim>\<open>example.com\<close> and
  port 5971, \<^verbatim>\<open>jobContentUrl('h1','f.txt')\<close> is
  \<^verbatim>\<open>https://example.com:5971/job/content/download/h1/f.txt\<close>.
\<close>

theorem jobContentUrl_builds:
  assumes "host (prism (opts that)) = JStr h" and "port (prism (opts that)) = JNum p"
  shows "jobContentUrl that (JStr handle) (JStr file) =
           ''https://'' @ h @ '':'' @ toString (JNum p) @ ''/job/content/download/'' @
           handle @ ''/'' @ file"
  using assms by (simp add: jobContentUrl_def)

theorem jobContentUrl_builds_witness:
  "host (prism (opts (ready net_reset))) = JStr ''example.com''
   \<and> port (prism (opts (ready net_reset))) = JNum 5971
   \<and> jobContentUrl (ready net_reset) (JStr ''h1'') (JStr ''f.txt'') =
       ''https://example.com:5971/job/content/download/h1/f.txt''"
  using jobContentUrl_builds [of "ready net_reset" "''example.com''" 5971 "''h1''" "''f.txt''"]
  by (simp add: sample_defs digits.simps)

end
